theory Spec2Isabelle
  imports Main
begin

section \<open>Invoice / purchase-order reconciliation agent: the session workflow\<close>

text \<open>
  A shallow embedding of \<^verbatim>\<open>src/reconcillation_agent.py\<close>. The program is a Streamlit
  script: four fields of \<^verbatim>\<open>st.session_state\<close> survive between user interactions, and
  every piece of real work is delegated to an external collaborator (the temporary-file
  library, Azure Document Intelligence, pandas, the Azure OpenAI connector, the Pezzo
  prompt renderer and the secrets store). The embedding keeps

  \<^item> the session state as a record with the field names of the source,
  \<^item> every Python exception as a value (\<open>Inl\<close> of a sum), so that each \<^verbatim>\<open>try\<close>/\<^verbatim>\<open>except\<close>
    and each uncaught propagation is a branch of the model,
  \<^item> every call of an external collaborator as an entry of a call history, whose outcome
    is a parameter of the model that may depend on the history so far (a service may fail
    now and succeed later),
  \<^item> every Streamlit rendering call as an entry of a list of rendered elements.

  The \<^verbatim>\<open>logger\<close> calls are left out: they change nothing the program reads.
\<close>

subsection \<open>Python values\<close>

text \<open>
  An instance of a subclass of \<^verbatim>\<open>Exception\<close> (what \<^verbatim>\<open>except Exception\<close> catches): its class
  name and the text \<^verbatim>\<open>str(e)\<close>. Signals that derive from \<^verbatim>\<open>BaseException\<close> only
  (\<^verbatim>\<open>KeyboardInterrupt\<close>, \<^verbatim>\<open>SystemExit\<close>) are not modelled.
\<close>

datatype py_exception = Py_exception (exc_class: string) (exc_str: string)

text \<open>
  Extracted content is the pair \<^verbatim>\<open>(text, tables)\<close>. What a table is (a pandas
  \<^verbatim>\<open>DataFrame\<close>, a Document Intelligence table) is decided by the libraries, so it is the
  type parameter \<open>'t\<close>.
\<close>

type_synonym 't content = "string \<times> 't list"

text \<open>\<^verbatim>\<open>process_file\<close> returns either the content tuple or the string \<^verbatim>\<open>f"Error: {str(e)}"\<close>.\<close>

datatype 't pf_result = Extracted "'t content" | Message string

text \<open>The object Streamlit hands over for an uploaded file: \<^verbatim>\<open>.name\<close> and \<^verbatim>\<open>.getvalue()\<close>.\<close>

record uploaded_file =
  name :: string
  getvalue :: string

subsection \<open>Effects: calls and rendered elements\<close>

text \<open>
  One entry per call. \<open>Process_file\<close> records an entry into \<^verbatim>\<open>process_file\<close> with its two
  arguments; every other constructor is a call of an external collaborator.
\<close>

datatype event =
    Process_file string string
  | Named_temporary_file string string
  | Azure_document_intelligence string
  | Extract_text string
  | Extract_tables string
  | Read_csv string
  | Azure_openai_connector
  | Connect_azure_open_ai string
  | St_secrets string
  | Pezzo_prompt_renderer string string string string
  | Get_prompt string
  | Llm_invoke string

datatype ui_event =
    St_write string
  | St_progress nat
  | Status_text string
  | St_expander string
  | St_markdown string
  | St_error string
  | St_info string
  | St_download_button string string string string

text \<open>
  The four \<^verbatim>\<open>st.session_state\<close> fields (lines 17--24 initialise each to \<^verbatim>\<open>None\<close>), the
  call history and the rendered elements.
\<close>

record 't world =
  invoice_content :: "'t content option"
  po_content :: "'t content option"
  invoice_path :: "string option"
  po_path :: "string option"
  calls :: "event list"
  ui :: "ui_event list"

definition initial_world :: "'t world" where
  "initial_world =
     \<lparr>invoice_content = None, po_content = None, invoice_path = None, po_path = None,
      calls = [], ui = []\<rparr>"

text \<open>
  The external collaborators. Each outcome is a function of the call history at the
  moment of the call and of the call's arguments; \<open>Inl\<close> is the exception it raises.

  \<^item> \<open>named_temporary_file h suffix data\<close>: \<^verbatim>\<open>tempfile.NamedTemporaryFile(delete=False,
    suffix=...)\<close> followed by \<^verbatim>\<open>write\<close>; it yields the generated part of the file name, and
    the path is that part followed by the suffix, as the library documents.
  \<^item> \<open>azure_document_intelligence\<close>, \<open>extract_text\<close>, \<open>extract_tables\<close>: the constructor and
    the two methods of \<^verbatim>\<open>AzureDocumentIntelligence\<close>.
  \<^item> \<open>read_csv\<close>, \<open>to_string\<close>: \<^verbatim>\<open>pd.read_csv\<close> and \<^verbatim>\<open>df.to_string(index=False)\<close>.
  \<^item> \<open>azure_openai_connector\<close>, \<open>connect_azure_open_ai\<close>, \<open>llm_invoke\<close>: the connector's
    constructor, \<^verbatim>\<open>connect_azure_open_ai\<close>, and \<^verbatim>\<open>llm.invoke(...).content\<close>.
  \<^item> \<open>st_secrets\<close>: \<^verbatim>\<open>st.secrets[key]\<close>.
  \<^item> \<open>pezzo_prompt_renderer\<close>, \<open>get_prompt\<close>: the renderer's constructor and
    \<^verbatim>\<open>get_prompt\<close>.
  \<^item> \<open>str_content\<close>: Python's \<^verbatim>\<open>str\<close> of a content tuple, as the f-string of line 97
    formats it.
\<close>

record 't externals =
  named_temporary_file :: "event list \<Rightarrow> string \<Rightarrow> string \<Rightarrow> py_exception + string"
  azure_document_intelligence :: "event list \<Rightarrow> string \<Rightarrow> py_exception + unit"
  extract_text :: "event list \<Rightarrow> string \<Rightarrow> py_exception + string"
  extract_tables :: "event list \<Rightarrow> string \<Rightarrow> py_exception + 't list"
  read_csv :: "event list \<Rightarrow> string \<Rightarrow> py_exception + 't"
  to_string :: "'t \<Rightarrow> string"
  azure_openai_connector :: "event list \<Rightarrow> py_exception + unit"
  connect_azure_open_ai :: "event list \<Rightarrow> string \<Rightarrow> py_exception + unit"
  st_secrets :: "event list \<Rightarrow> string \<Rightarrow> py_exception + string"
  pezzo_prompt_renderer ::
    "event list \<Rightarrow> string \<Rightarrow> string \<Rightarrow> string \<Rightarrow> string \<Rightarrow> py_exception + unit"
  get_prompt :: "event list \<Rightarrow> string \<Rightarrow> py_exception + string"
  llm_invoke :: "event list \<Rightarrow> string \<Rightarrow> py_exception + string"
  str_content :: "'t content \<Rightarrow> string"

subsection \<open>Statements that may raise\<close>

text \<open>
  A statement maps the world to an outcome and the world it leaves behind; what was
  written before an exception stays written.
\<close>

type_synonym ('t, 'a) prog = "'t world \<Rightarrow> (py_exception + 'a) \<times> 't world"

definition returns :: "'a \<Rightarrow> ('t, 'a) prog" where
  "returns x s = (Inr x, s)"

definition raises :: "py_exception \<Rightarrow> ('t, 'a) prog" where
  "raises e s = (Inl e, s)"

definition pbind :: "('t, 'a) prog \<Rightarrow> ('a \<Rightarrow> ('t, 'b) prog) \<Rightarrow> ('t, 'b) prog" where
  "pbind m f s = (case m s of (Inl e, s') \<Rightarrow> (Inl e, s') | (Inr x, s') \<Rightarrow> f x s')"

text \<open>\<^verbatim>\<open>try: body  except Exception as e: handler\<close>\<close>

definition try_except :: "('t, 'a) prog \<Rightarrow> (py_exception \<Rightarrow> ('t, 'a) prog) \<Rightarrow> ('t, 'a) prog" where
  "try_except body handler s =
     (case body s of (Inl e, s') \<Rightarrow> handler e s' | (Inr x, s') \<Rightarrow> (Inr x, s'))"

definition ext_call :: "event \<Rightarrow> (event list \<Rightarrow> py_exception + 'a) \<Rightarrow> ('t, 'a) prog" where
  "ext_call ev outcome s = (outcome (calls s), s\<lparr>calls := calls s @ [ev]\<rparr>)"

definition render :: "ui_event \<Rightarrow> ('t, unit) prog" where
  "render u s = (Inr (), s\<lparr>ui := ui s @ [u]\<rparr>)"

subsection \<open>The string functions the source uses\<close>

text \<open>
  \<^verbatim>\<open>str.lower\<close> on the ASCII letters. The program uses the lowered string only to test
  for the suffixes \<^verbatim>\<open>.pdf\<close> and \<^verbatim>\<open>.csv\<close> and to name the temporary file; no character
  outside ASCII lowers to one of the letters of these suffixes, so the tests are exact.
\<close>

definition lower_char :: "char \<Rightarrow> char" where
  "lower_char c =
     (case map_of (zip ''ABCDEFGHIJKLMNOPQRSTUVWXYZ'' ''abcdefghijklmnopqrstuvwxyz'') c of
        Some l \<Rightarrow> l
      | None \<Rightarrow> c)"

definition lower :: "string \<Rightarrow> string" where
  "lower s = map lower_char s"

definition endswith :: "string \<Rightarrow> string \<Rightarrow> bool" where
  "endswith s suffix =
     (length suffix \<le> length s \<and> drop (length s - length suffix) s = suffix)"

text \<open>
  \<^verbatim>\<open>os.path.splitext\<close> of \<^verbatim>\<open>posixpath\<close>: the extension starts at the last dot of the last
  path component, unless that component has only dots before it.
\<close>

definition splitext :: "string \<Rightarrow> string \<times> string" where
  "splitext p =
     (let component = rev (takeWhile (\<lambda>c. c \<noteq> CHR ''/'') (rev p));
          after_dot = rev (takeWhile (\<lambda>c. c \<noteq> CHR ''.'') (rev component))
      in if length after_dot = length component then (p, [])
         else
           let n = Suc (length after_dot);
               before_dot = take (length component - n) component
           in if list_ex (\<lambda>c. c \<noteq> CHR ''.'') before_dot
              then (take (length p - n) p, drop (length p - n) p)
              else (p, []))"

text \<open>Truth value of an optional path: \<^verbatim>\<open>None\<close> and the empty string are false.\<close>

definition truthy :: "string option \<Rightarrow> bool" where
  "truthy p = (case p of None \<Rightarrow> False | Some x \<Rightarrow> x \<noteq> [])"

subsection \<open>Content extraction (lines 26--70)\<close>

definition extract_content_from_pdf :: "'t externals \<Rightarrow> string \<Rightarrow> ('t, 't content) prog" where
  "extract_content_from_pdf ext pdf_path =
     try_except
       (pbind (ext_call (Azure_document_intelligence pdf_path)
                 (\<lambda>h. azure_document_intelligence ext h pdf_path)) (\<lambda>doc_processor.
        pbind (ext_call (Extract_text pdf_path) (\<lambda>h. extract_text ext h pdf_path))
          (\<lambda>extracted_text.
        pbind (ext_call (Extract_tables pdf_path) (\<lambda>h. extract_tables ext h pdf_path))
          (\<lambda>extracted_tables.
        returns (extracted_text, extracted_tables)))))
       (\<lambda>e. raises e)"

definition extract_content_from_csv :: "'t externals \<Rightarrow> string \<Rightarrow> ('t, 't content) prog" where
  "extract_content_from_csv ext csv_path =
     try_except
       (pbind (ext_call (Read_csv csv_path) (\<lambda>h. read_csv ext h csv_path)) (\<lambda>df.
        let text_content = to_string ext df;
            tables = [df]
        in returns (text_content, tables)))
       (\<lambda>e. raises e)"

definition store_content :: "string \<Rightarrow> 't content \<Rightarrow> ('t, unit) prog" where
  "store_content document_type content s =
     (if document_type = ''invoice''
      then (Inr (), s\<lparr>invoice_content := Some content\<rparr>)
      else (Inr (), s\<lparr>po_content := Some content\<rparr>))"

definition process_file :: "'t externals \<Rightarrow> string \<Rightarrow> string \<Rightarrow> ('t, 't pf_result) prog" where
  "process_file ext file_path document_type =
     pbind (ext_call (Process_file file_path document_type) (\<lambda>h. Inr ())) (\<lambda>entered.
     try_except
       (pbind
          (if endswith (lower file_path) ''.pdf''
           then extract_content_from_pdf ext file_path
           else if endswith (lower file_path) ''.csv''
           then extract_content_from_csv ext file_path
           else raises (Py_exception ''ValueError''
                  (''Unsupported file format: '' @ snd (splitext file_path))))
          (\<lambda>content.
        pbind (store_content document_type content) (\<lambda>stored.
        returns (Extracted content))))
       (\<lambda>e. returns (Message (''Error: '' @ exc_str e))))"

subsection \<open>Comparison (lines 72--99)\<close>

text \<open>Lines 76--79: extract what is missing, for each role whose path is set.\<close>

definition reextract_missing :: "'t externals \<Rightarrow> ('t, unit) prog" where
  "reextract_missing ext =
     pbind (\<lambda>s. if truthy (invoice_path s) \<and> invoice_content s = None
                 then pbind (process_file ext (the (invoice_path s)) ''invoice'')
                        (\<lambda>ignored. returns ()) s
                 else returns () s) (\<lambda>done_invoice.
           (\<lambda>s. if truthy (po_path s) \<and> po_content s = None
                 then pbind (process_file ext (the (po_path s)) ''purchase_order'')
                        (\<lambda>ignored. returns ()) s
                 else returns () s))"

text \<open>Python's \<^verbatim>\<open>str\<close> of a session field holding a content tuple or \<^verbatim>\<open>None\<close> (line 97).\<close>

definition str_field :: "'t externals \<Rightarrow> 't content option \<Rightarrow> string" where
  "str_field ext c = (case c of None \<Rightarrow> ''None'' | Some x \<Rightarrow> str_content ext x)"

text \<open>Lines 85--99: connect, fetch the prompt, build the request, invoke the model.\<close>

definition request_summary :: "'t externals \<Rightarrow> ('t, string) prog" where
  "request_summary ext =
     pbind (ext_call Azure_openai_connector (\<lambda>h. azure_openai_connector ext h)) (\<lambda>connector.
     pbind (ext_call (Connect_azure_open_ai ''gpt-4o-mini'')
              (\<lambda>h. connect_azure_open_ai ext h ''gpt-4o-mini'')) (\<lambda>llm.
     pbind (ext_call (St_secrets ''PEZZO_API_KEY'')
              (\<lambda>h. st_secrets ext h ''PEZZO_API_KEY'')) (\<lambda>api_key.
     pbind (ext_call (St_secrets ''PEZZO_PROJECT_ID'')
              (\<lambda>h. st_secrets ext h ''PEZZO_PROJECT_ID'')) (\<lambda>project_id.
     pbind (ext_call (St_secrets ''PEZZO_ENVIRONMENT'')
              (\<lambda>h. st_secrets ext h ''PEZZO_ENVIRONMENT'')) (\<lambda>environment.
     pbind (ext_call (St_secrets ''PEZZO_SERVER_URL'')
              (\<lambda>h. st_secrets ext h ''PEZZO_SERVER_URL'')) (\<lambda>server_url.
     pbind (ext_call (Pezzo_prompt_renderer api_key project_id environment server_url)
              (\<lambda>h. pezzo_prompt_renderer ext h api_key project_id environment server_url))
       (\<lambda>renderer.
     let prompt_name = ''PurchaseOrder'' in
     pbind (ext_call (Get_prompt prompt_name) (\<lambda>h. get_prompt ext h prompt_name)) (\<lambda>prompt.
     (\<lambda>s.
        let prompt_txt = prompt @ [CHR 0x0A, CHR 0x0A] @ ''Text: ''
              @ str_field ext (invoice_content s) @ '','' @ str_field ext (po_content s)
        in ext_call (Llm_invoke prompt_txt) (\<lambda>h. llm_invoke ext h prompt_txt) s)))))))))"

definition content_missing :: "'t world \<Rightarrow> bool" where
  "content_missing s = (invoice_content s = None \<or> po_content s = None)"

definition precondition_message :: string where
  "precondition_message =
     ''Error: Invoice or PO content not available. Please extract both documents first.''"

text \<open>The two parameters are the ones of the source; its body never mentions them.\<close>

definition generate_summary ::
  "'t externals \<Rightarrow> string option \<Rightarrow> string option \<Rightarrow> ('t, string) prog" where
  "generate_summary ext invoice_path_arg po_path_arg =
     (\<lambda>s. if content_missing s
          then pbind (reextract_missing ext) (\<lambda>tried.
                 (\<lambda>s'. if content_missing s'
                        then returns precondition_message s'
                        else request_summary ext s')) s
          else request_summary ext s)"

subsection \<open>Upload and the interaction handlers (lines 101--183)\<close>

definition store_path :: "string \<Rightarrow> string \<Rightarrow> ('t, unit) prog" where
  "store_path document_type temp_path s =
     (if document_type = ''invoice''
      then (Inr (), s\<lparr>invoice_path := Some temp_path\<rparr>)
      else (Inr (), s\<lparr>po_path := Some temp_path\<rparr>))"

text \<open>The status text of line 121 ends with U+2705, three bytes in UTF-8.\<close>

definition done_text :: string where
  "done_text = ''Done '' @ [CHR 0xE2, CHR 0x9C, CHR 0x85]"

definition process_uploaded_file ::
  "'t externals \<Rightarrow> uploaded_file \<Rightarrow> string \<Rightarrow> ('t, 't pf_result option \<times> string) prog" where
  "process_uploaded_file ext uploaded document_type =
     pbind (render (St_write (''Processing '' @ document_type @ '': '' @ name uploaded)))
       (\<lambda>written.
     pbind (render (St_progress 0)) (\<lambda>progress.
     pbind (render (Status_text ''Saving file...'')) (\<lambda>status.
     let file_extension = lower (snd (splitext (name uploaded))) in
     pbind (ext_call (Named_temporary_file file_extension (getvalue uploaded))
              (\<lambda>h. case named_temporary_file ext h file_extension (getvalue uploaded) of
                      Inl e \<Rightarrow> Inl e
                    | Inr generated \<Rightarrow> Inr (generated @ file_extension))) (\<lambda>temp_path.
     try_except
       (pbind (render (St_progress 20)) (\<lambda>p20.
        pbind (render (Status_text ''Extracting data...'')) (\<lambda>extracting.
        pbind (process_file ext temp_path document_type) (\<lambda>result.
        pbind (render (St_progress 100)) (\<lambda>p100.
        pbind (render (Status_text done_text)) (\<lambda>finished.
        pbind (render (St_expander (''Results: '' @ name uploaded))) (\<lambda>expander.
        pbind (render (St_markdown ''Extracted Successfully'')) (\<lambda>markdown.
        pbind (store_path document_type temp_path) (\<lambda>stored.
        returns (Some result, temp_path))))))))))
       (\<lambda>e. pbind (render (St_error (''Error: '' @ exc_str e))) (\<lambda>shown.
             returns (None, temp_path)))))))"

text \<open>
  Lines 152--153 and 158--159 of \<^verbatim>\<open>main\<close>: the button handlers bind the first component
  of the result to \<^verbatim>\<open>_\<close> and use neither component afterwards.
\<close>

definition main_extract :: "'t externals \<Rightarrow> uploaded_file \<Rightarrow> string \<Rightarrow> ('t, unit) prog" where
  "main_extract ext uploaded document_type =
     pbind (process_uploaded_file ext uploaded document_type) (\<lambda>(ignored, temp_path).
     returns ())"

text \<open>Lines 171--183 of \<^verbatim>\<open>main\<close>, with the Compare button pressed.\<close>

definition main_compare :: "'t externals \<Rightarrow> ('t, unit) prog" where
  "main_compare ext s =
     (if truthy (invoice_path s) \<and> truthy (po_path s)
      then pbind (generate_summary ext (invoice_path s) (po_path s)) (\<lambda>comparison.
           pbind (render (St_markdown comparison)) (\<lambda>shown.
           render (St_download_button ''Download Comparison'' comparison
                     ''invoice_po_comparison.md'' ''text/markdown''))) s
      else render (St_info ''Upload both Invoice and Purchase Order to enable comparison.'') s)"

section \<open>Vocabulary of the properties\<close>

text \<open>
  The two document roles and the string each is passed as (\<^verbatim>\<open>main\<close>, lines 153 and 159).
  \<^verbatim>\<open>process_file\<close> and \<^verbatim>\<open>process_uploaded_file\<close> compare the string with \<^verbatim>\<open>"invoice"\<close>
  and treat every other value as the purchase order.
\<close>

datatype role = Invoice | Purchase_order

fun label :: "role \<Rightarrow> string" where
  "label Invoice = ''invoice''"
| "label Purchase_order = ''purchase_order''"

fun other :: "role \<Rightarrow> role" where
  "other Invoice = Purchase_order"
| "other Purchase_order = Invoice"

fun content_of :: "role \<Rightarrow> 't world \<Rightarrow> 't content option" where
  "content_of Invoice s = invoice_content s"
| "content_of Purchase_order s = po_content s"

fun path_of :: "role \<Rightarrow> 't world \<Rightarrow> string option" where
  "path_of Invoice s = invoice_path s"
| "path_of Purchase_order s = po_path s"

text \<open>A call of one of the extraction libraries on the path \<open>p\<close>.\<close>

fun is_extraction_of :: "string \<Rightarrow> event \<Rightarrow> bool" where
  "is_extraction_of p (Azure_document_intelligence q) = (q = p)"
| "is_extraction_of p (Extract_text q) = (q = p)"
| "is_extraction_of p (Extract_tables q) = (q = p)"
| "is_extraction_of p (Read_csv q) = (q = p)"
| "is_extraction_of p e = False"

text \<open>Lines 54--59 of \<^verbatim>\<open>process_file\<close> on their own: the dispatch on the extension.\<close>

definition dispatch :: "'t externals \<Rightarrow> string \<Rightarrow> ('t, 't content) prog" where
  "dispatch ext file_path =
     (if endswith (lower file_path) ''.pdf''
      then extract_content_from_pdf ext file_path
      else if endswith (lower file_path) ''.csv''
      then extract_content_from_csv ext file_path
      else raises (Py_exception ''ValueError''
             (''Unsupported file format: '' @ snd (splitext file_path))))"

text \<open>Line 108, and the elements \<^verbatim>\<open>process_uploaded_file\<close> renders before and after extraction.\<close>

definition upload_suffix :: "uploaded_file \<Rightarrow> string" where
  "upload_suffix uploaded = lower (snd (splitext (name uploaded)))"

definition saving_ui :: "uploaded_file \<Rightarrow> string \<Rightarrow> ui_event list" where
  "saving_ui uploaded document_type =
     [St_write (''Processing '' @ document_type @ '': '' @ name uploaded), St_progress 0,
      Status_text ''Saving file...'']"

definition success_ui :: "uploaded_file \<Rightarrow> ui_event list" where
  "success_ui uploaded =
     [St_progress 100, Status_text done_text, St_expander (''Results: '' @ name uploaded),
      St_markdown ''Extracted Successfully'']"

text \<open>Kinds of calls: anything done to extract, and the calls of lines 85--98.\<close>

fun is_extraction_step :: "event \<Rightarrow> bool" where
  "is_extraction_step (Process_file p d) = True"
| "is_extraction_step (Azure_document_intelligence p) = True"
| "is_extraction_step (Extract_text p) = True"
| "is_extraction_step (Extract_tables p) = True"
| "is_extraction_step (Read_csv p) = True"
| "is_extraction_step e = False"

fun is_prompt_service_call :: "event \<Rightarrow> bool" where
  "is_prompt_service_call (Pezzo_prompt_renderer a b c d) = True"
| "is_prompt_service_call (Get_prompt n) = True"
| "is_prompt_service_call e = False"

fun is_llm_call :: "event \<Rightarrow> bool" where
  "is_llm_call Azure_openai_connector = True"
| "is_llm_call (Connect_azure_open_ai d) = True"
| "is_llm_call (Llm_invoke p) = True"
| "is_llm_call e = False"

fun is_process_file_call :: "event \<Rightarrow> bool" where
  "is_process_file_call (Process_file p d) = True"
| "is_process_file_call e = False"

fun is_summary_step :: "event \<Rightarrow> bool" where
  "is_summary_step Azure_openai_connector = True"
| "is_summary_step (Connect_azure_open_ai d) = True"
| "is_summary_step (St_secrets k) = True"
| "is_summary_step (Pezzo_prompt_renderer a b c d) = True"
| "is_summary_step (Get_prompt n) = True"
| "is_summary_step (Llm_invoke p) = True"
| "is_summary_step e = False"

text \<open>The exception a call raised; \<open>raised ext h ev\<close> is the one the call recorded as \<open>ev\<close>
  raises when it is made after the calls \<open>h\<close>.\<close>

fun failure :: "py_exception + 'a \<Rightarrow> py_exception option" where
  "failure (Inl e) = Some e"
| "failure (Inr x) = None"

fun raised :: "'t externals \<Rightarrow> event list \<Rightarrow> event \<Rightarrow> py_exception option" where
  "raised ext h (Process_file p d) = None"
| "raised ext h (Named_temporary_file suffix data) = failure (named_temporary_file ext h suffix data)"
| "raised ext h (Azure_document_intelligence p) = failure (azure_document_intelligence ext h p)"
| "raised ext h (Extract_text p) = failure (extract_text ext h p)"
| "raised ext h (Extract_tables p) = failure (extract_tables ext h p)"
| "raised ext h (Read_csv p) = failure (read_csv ext h p)"
| "raised ext h Azure_openai_connector = failure (azure_openai_connector ext h)"
| "raised ext h (Connect_azure_open_ai d) = failure (connect_azure_open_ai ext h d)"
| "raised ext h (St_secrets k) = failure (st_secrets ext h k)"
| "raised ext h (Pezzo_prompt_renderer a b c d) = failure (pezzo_prompt_renderer ext h a b c d)"
| "raised ext h (Get_prompt n) = failure (get_prompt ext h n)"
| "raised ext h (Llm_invoke p) = failure (llm_invoke ext h p)"

text \<open>One of the two \<^verbatim>\<open>if\<close> statements of lines 76--79, for the role \<open>r\<close>.\<close>

definition after_role :: "'t externals \<Rightarrow> role \<Rightarrow> 't world \<Rightarrow> 't world" where
  "after_role ext r s =
     (if truthy (path_of r s) \<and> content_of r s = None
      then snd (process_file ext (the (path_of r s)) (label r) s) else s)"

text \<open>
  A statement run in \<open>s\<close> only appends calls of lines 85--98; a call that raises is the
  last one made and its exception is the outcome; an exception as outcome is the one the
  last call raised.
\<close>

definition propagates_at :: "'t externals \<Rightarrow> ('t, 'a) prog \<Rightarrow> 't world \<Rightarrow> bool" where
  "propagates_at ext m s \<longleftrightarrow>
     (\<exists>new. snd (m s) = s\<lparr>calls := calls s @ new\<rparr> \<and> list_all is_summary_step new \<and>
        (\<forall>k<length new. \<forall>e. raised ext (calls s @ take k new) (new ! k) = Some e \<longrightarrow>
             fst (m s) = Inl e \<and> Suc k = length new) \<and>
        (\<forall>e. fst (m s) = Inl e \<longrightarrow>
             new \<noteq> [] \<and> raised ext (calls s @ butlast new) (last new) = Some e))"

text \<open>
  The worlds a session can be in: it starts with the four fields \<^verbatim>\<open>None\<close>, and every
  interaction is an upload for one of the two roles or a comparison (through \<^verbatim>\<open>main\<close> or
  by a direct call of \<^verbatim>\<open>generate_summary\<close>).
\<close>

inductive reachable :: "'t externals \<Rightarrow> 't world \<Rightarrow> bool" for ext :: "'t externals" where
  start: "reachable ext initial_world"
| upload: "reachable ext s \<Longrightarrow> reachable ext (snd (process_uploaded_file ext f (label r) s))"
| summary: "reachable ext s \<Longrightarrow> reachable ext (snd (generate_summary ext ip pp s))"
| compare: "reachable ext s \<Longrightarrow> reachable ext (snd (main_compare ext s))"

section \<open>Concrete inputs\<close>

text \<open>
  Collaborators with fixed answers, a table type of header and rows, and a few files and
  worlds, for evaluating the program on concrete inputs.
\<close>

type_synonym csv_table = "string list \<times> string list list"

definition services_up :: "csv_table externals" where
  "services_up = \<lparr>
     named_temporary_file = (\<lambda>h suffix data. Inr (''/tmp/tmp'' @ replicate (length h) CHR ''a'')),
     azure_document_intelligence = (\<lambda>h p. Inr ()),
     extract_text = (\<lambda>h p. Inr ''Invoice 42''),
     extract_tables = (\<lambda>h p. Inr []),
     read_csv = (\<lambda>h p. Inr ([''item'', ''qty''], [[''Widget'', ''5'']])),
     to_string = (\<lambda>t. concat (map concat (fst t # snd t))),
     azure_openai_connector = (\<lambda>h. Inr ()),
     connect_azure_open_ai = (\<lambda>h d. Inr ()),
     st_secrets = (\<lambda>h k. Inr k),
     pezzo_prompt_renderer = (\<lambda>h a b c d. Inr ()),
     get_prompt = (\<lambda>h n. Inr ''Compare:''),
     llm_invoke = (\<lambda>h p. Inr ''They match.''),
     str_content = (\<lambda>c. fst c)\<rparr>"

definition pdf_service_down :: "csv_table externals" where
  "pdf_service_down =
     services_up\<lparr>azure_document_intelligence :=
       (\<lambda>h p. Inl (Py_exception ''ServiceError'' ''service unavailable''))\<rparr>"

definition invoice_pdf :: uploaded_file where
  "invoice_pdf = \<lparr>name = ''invoice.pdf'', getvalue = ''%PDF-1.4''\<rparr>"

definition world_with_invoice :: "csv_table world" where
  "world_with_invoice =
     initial_world\<lparr>invoice_content := Some (''Invoice 41'', []),
                   invoice_path := Some ''/tmp/tmpold.pdf''\<rparr>"

definition invoice_csv :: uploaded_file where
  "invoice_csv = \<lparr>name = ''invoice.csv'', getvalue = ''item,qty'' @ [CHR 0x0A] @ ''Widget,5''\<rparr>"

definition invoice_docx :: uploaded_file where
  "invoice_docx = \<lparr>name = ''invoice.docx'', getvalue = ''PK''\<rparr>"

definition llm_down :: "csv_table externals" where
  "llm_down =
     services_up\<lparr>llm_invoke := (\<lambda>h p. Inl (Py_exception ''TimeoutError'' ''timed out''))\<rparr>"

definition pdf_service_flaky :: "csv_table externals" where
  "pdf_service_flaky =
     services_up\<lparr>azure_document_intelligence :=
       (\<lambda>h p. if Azure_document_intelligence p \<in> set h then Inr ()
              else Inl (Py_exception ''ServiceError'' ''service unavailable''))\<rparr>"

definition world_both_ready :: "csv_table world" where
  "world_both_ready =
     initial_world\<lparr>invoice_content := Some (''Invoice 42'', []),
                   po_content := Some (''Order 42'', []),
                   invoice_path := Some ''/tmp/tmpa.pdf'',
                   po_path := Some ''/tmp/tmpb.pdf''\<rparr>"

definition world_po_ready :: "csv_table world" where
  "world_po_ready =
     initial_world\<lparr>po_content := Some (''Order 42'', []), po_path := Some ''/tmp/tmpb.pdf''\<rparr>"

definition world_invoice_pending :: "csv_table world" where
  "world_invoice_pending = world_po_ready\<lparr>invoice_path := Some ''/tmp/tmp.pdf''\<rparr>"

section \<open>How the statements compose\<close>

lemmas prog_defs = pbind_def returns_def raises_def try_except_def ext_call_def render_def

lemma extract_pdf_frame:
  assumes "extract_content_from_pdf ext p s = (r, s')"
  shows "\<exists>new. s' = s\<lparr>calls := calls s @ new\<rparr> \<and> list_all (is_extraction_of p) new"
  using assms
  by (auto simp: extract_content_from_pdf_def prog_defs split: sum.splits prod.splits)

lemma extract_csv_frame:
  assumes "extract_content_from_csv ext p s = (r, s')"
  shows "\<exists>new. s' = s\<lparr>calls := calls s @ new\<rparr> \<and> list_all (is_extraction_of p) new"
  using assms
  by (auto simp: extract_content_from_csv_def prog_defs Let_def split: sum.splits prod.splits)

lemma dispatch_frame:
  assumes "dispatch ext p s = (r, s')"
  shows "\<exists>new. s' = s\<lparr>calls := calls s @ new\<rparr> \<and> list_all (is_extraction_of p) new"
proof -
  have "s = s\<lparr>calls := calls s @ []\<rparr>" by simp
  then show ?thesis
  using assms extract_pdf_frame[of ext p s r s'] extract_csv_frame[of ext p s r s']
  by (auto simp: dispatch_def raises_def split: if_splits intro: exI[of _ "[]"])
qed

lemma process_file_unfold:
  "process_file ext p d s =
     (case dispatch ext p (s\<lparr>calls := calls s @ [Process_file p d]\<rparr>) of
        (Inl e, s1) \<Rightarrow> (Inr (Message (''Error: '' @ exc_str e)), s1)
      | (Inr c, s1) \<Rightarrow> (Inr (Extracted c),
           if d = ''invoice'' then s1\<lparr>invoice_content := Some c\<rparr> else s1\<lparr>po_content := Some c\<rparr>))"
  by (simp add: process_file_def dispatch_def prog_defs store_content_def split: sum.splits prod.splits)

lemma process_file_result:
  assumes "process_file ext p d s = (r, s')"
  shows "(\<exists>c. r = Inr (Extracted c)) \<or> (\<exists>m. r = Inr (Message (''Error: '' @ m)))"
  using assms by (auto simp: process_file_unfold split: sum.splits prod.splits)

lemma process_file_calls:
  assumes "process_file ext p d s = (r, s')"
  shows "\<exists>new. calls s' = calls s @ Process_file p d # new \<and> list_all (is_extraction_of p) new"
proof -
  obtain r1 s1 where d: "dispatch ext p (s\<lparr>calls := calls s @ [Process_file p d]\<rparr>) = (r1, s1)"
    by (cases "dispatch ext p (s\<lparr>calls := calls s @ [Process_file p d]\<rparr>)")
  from dispatch_frame[OF d] obtain new where
    s1: "s1 = s\<lparr>calls := calls s @ Process_file p d # new\<rparr>" and ex: "list_all (is_extraction_of p) new"
    by auto
  have "calls s' = calls s1"
    using assms d by (cases r1) (auto simp: process_file_unfold split: if_splits)
  with s1 ex show ?thesis by auto
qed

lemma process_file_world:
  assumes "process_file ext p d s = (r, s')"
  shows "s' = (case r of
                 Inr (Extracted c) \<Rightarrow>
                   if d = ''invoice'' then s\<lparr>invoice_content := Some c, calls := calls s'\<rparr>
                   else s\<lparr>po_content := Some c, calls := calls s'\<rparr>
               | _ \<Rightarrow> s\<lparr>calls := calls s'\<rparr>)"
proof -
  obtain r1 s1 where d: "dispatch ext p (s\<lparr>calls := calls s @ [Process_file p d]\<rparr>) = (r1, s1)"
    by (cases "dispatch ext p (s\<lparr>calls := calls s @ [Process_file p d]\<rparr>)")
  from dispatch_frame[OF d] obtain new where
    s1: "s1 = s\<lparr>calls := calls s @ Process_file p d # new\<rparr>"
    by auto
  show ?thesis
    using assms d s1 by (cases r1) (auto simp: process_file_unfold split: if_splits)
qed


lemma process_uploaded_file_unfold:
  "process_uploaded_file ext f d s =
     (let s0 = s\<lparr>calls := calls s @ [Named_temporary_file (upload_suffix f) (getvalue f)],
                  ui := ui s @ saving_ui f d\<rparr>
      in case named_temporary_file ext (calls s) (upload_suffix f) (getvalue f) of
           Inl e \<Rightarrow> (Inl e, s0)
         | Inr g \<Rightarrow>
             (case process_file ext (g @ upload_suffix f) d
                     (s0\<lparr>ui := ui s0 @ [St_progress 20, Status_text ''Extracting data...'']\<rparr>) of
                (Inl e, s1) \<Rightarrow>
                  (Inr (None, g @ upload_suffix f),
                   s1\<lparr>ui := ui s1 @ [St_error (''Error: '' @ exc_str e)]\<rparr>)
              | (Inr res, s1) \<Rightarrow>
                  (Inr (Some res, g @ upload_suffix f),
                   if d = ''invoice''
                   then s1\<lparr>invoice_path := Some (g @ upload_suffix f), ui := ui s1 @ success_ui f\<rparr>
                   else s1\<lparr>po_path := Some (g @ upload_suffix f), ui := ui s1 @ success_ui f\<rparr>)))"
  by (simp add: process_uploaded_file_def prog_defs store_path_def upload_suffix_def saving_ui_def
      success_ui_def Let_def split: sum.splits prod.splits)


lemma role_fields_frame [simp]:
  "content_of r (s\<lparr>calls := a\<rparr>) = content_of r s"
  "content_of r (s\<lparr>ui := b\<rparr>) = content_of r s"
  "content_of r (s\<lparr>invoice_path := c\<rparr>) = content_of r s"
  "content_of r (s\<lparr>po_path := c\<rparr>) = content_of r s"
  "path_of r (s\<lparr>calls := a\<rparr>) = path_of r s"
  "path_of r (s\<lparr>ui := b\<rparr>) = path_of r s"
  "path_of r (s\<lparr>invoice_content := d\<rparr>) = path_of r s"
  "path_of r (s\<lparr>po_content := d\<rparr>) = path_of r s"
  by (cases r; simp)+

lemma process_file_content_of:
  assumes "process_file ext p (label r) s = (out, s')"
  shows "content_of (other r) s' = content_of (other r) s"
    and "path_of q s' = path_of q s"
    and "ui s' = ui s"
    and "out = Inr (Extracted c) \<Longrightarrow> content_of r s' = Some c"
    and "out = Inr (Message m) \<Longrightarrow> content_of r s' = content_of r s"
proof -
  note w = process_file_world[OF assms]
  have res: "(\<exists>c. out = Inr (Extracted c)) \<or> (\<exists>m. out = Inr (Message m))"
    using process_file_result[OF assms] by blast
  show "content_of (other r) s' = content_of (other r) s"
    using res by (cases r; elim disjE exE; (subst w)?; simp)
  show "path_of q s' = path_of q s"
    using res by (cases r; cases q; elim disjE exE; (subst w)?; simp)
  show "ui s' = ui s"
    using res by (cases r; elim disjE exE; (subst w)?; simp)
  show "out = Inr (Extracted c) \<Longrightarrow> content_of r s' = Some c"
    by (cases r; (subst w)?; simp)
  show "out = Inr (Message m) \<Longrightarrow> content_of r s' = content_of r s"
    by (cases r; (subst w)?; simp)
qed


lemma upload_raises:
  assumes "named_temporary_file ext (calls s) (upload_suffix f) (getvalue f) = Inl e"
  shows "process_uploaded_file ext f d s =
           (Inl e, s\<lparr>calls := calls s @ [Named_temporary_file (upload_suffix f) (getvalue f)],
                     ui := ui s @ saving_ui f d\<rparr>)"
  using assms by (simp add: process_uploaded_file_unfold)

lemma upload_completes:
  assumes tmp: "named_temporary_file ext (calls s) (upload_suffix f) (getvalue f) = Inr g"
    and pf: "process_file ext (g @ upload_suffix f) (label r)
               (s\<lparr>calls := calls s @ [Named_temporary_file (upload_suffix f) (getvalue f)],
                  ui := ui s @ saving_ui f (label r) @
                        [St_progress 20, Status_text ''Extracting data...'']\<rparr>) = (out, s1)"
  shows "\<exists>res. out = Inr res \<and>
           process_uploaded_file ext f (label r) s =
             (Inr (Some res, g @ upload_suffix f),
              if label r = ''invoice''
              then s1\<lparr>invoice_path := Some (g @ upload_suffix f), ui := ui s1 @ success_ui f\<rparr>
              else s1\<lparr>po_path := Some (g @ upload_suffix f), ui := ui s1 @ success_ui f\<rparr>)"
proof -
  from process_file_result[OF pf] obtain res where "out = Inr res" by blast
  then show ?thesis
    using tmp pf by (simp add: process_uploaded_file_unfold)
qed

lemma endswith_iff: "endswith s suffix \<longleftrightarrow> (\<exists>pre. s = pre @ suffix)"
proof
  assume "endswith s suffix"
  then have "s = take (length s - length suffix) s @ suffix"
    by (metis append_take_drop_id endswith_def)
  then show "\<exists>pre. s = pre @ suffix" ..
next
  assume "\<exists>pre. s = pre @ suffix"
  then show "endswith s suffix" by (auto simp: endswith_def)
qed

lemma endswith_lower_iff:
  "endswith (lower p) suffix \<longleftrightarrow> (\<exists>stem e. p = stem @ e \<and> lower e = suffix)"
  by (auto simp: endswith_iff lower_def map_eq_append_conv)

lemma endswith_same_length:
  "endswith s a \<Longrightarrow> endswith s b \<Longrightarrow> length a = length b \<Longrightarrow> a = b"
  by (auto simp: endswith_def)

lemmas run_defs =
  process_uploaded_file_def process_file_def extract_content_from_pdf_def
  extract_content_from_csv_def store_content_def store_path_def
  pbind_def returns_def raises_def try_except_def ext_call_def render_def
  splitext_def lower_def lower_char_def endswith_def Let_def

lemmas fixture_defs =
  services_up_def pdf_service_down_def invoice_pdf_def invoice_csv_def invoice_docx_def
  world_with_invoice_def initial_world_def

lemma extraction_of_step: "is_extraction_of p e \<Longrightarrow> is_extraction_step e"
  by (cases e) simp_all

lemma extraction_step_kind:
  "is_extraction_step e \<Longrightarrow> \<not> is_prompt_service_call e \<and> \<not> is_llm_call e"
  by (cases e) simp_all

lemma process_file_returns:
  "pbind (process_file ext p d) (\<lambda>ignored. returns ()) s = (Inr (), snd (process_file ext p d s))"
proof -
  obtain out s' where pf: "process_file ext p d s = (out, s')" by (rule prod.exhaust)
  from process_file_result[OF pf] obtain res where "out = Inr res" by blast
  with pf show ?thesis by (simp add: pbind_def returns_def)
qed

lemma step_invoice:
  "(if truthy (invoice_path s) \<and> invoice_content s = None
    then pbind (process_file ext (the (invoice_path s)) ''invoice'') (\<lambda>ignored. returns ()) s
    else returns () s) = (Inr (), after_role ext Invoice s)"
  by (simp add: after_role_def process_file_returns returns_def)

lemma step_po:
  "(if truthy (po_path s) \<and> po_content s = None
    then pbind (process_file ext (the (po_path s)) ''purchase_order'') (\<lambda>ignored. returns ()) s
    else returns () s) = (Inr (), after_role ext Purchase_order s)"
  by (simp add: after_role_def process_file_returns returns_def)

lemma reextract_missing_unfold:
  "reextract_missing ext s =
     (Inr (), after_role ext Purchase_order (after_role ext Invoice s))"
  unfolding reextract_missing_def
  by (subst pbind_def) (simp only: step_invoice step_po prod.case sum.case)


lemma after_role_frame:
  "path_of q (after_role ext r s) = path_of q s"
  "ui (after_role ext r s) = ui s"
  "content_of (other r) (after_role ext r s) = content_of (other r) s"
proof -
  obtain out s' where pf: "process_file ext (the (path_of r s)) (label r) s = (out, s')"
    by (rule prod.exhaust)
  show "path_of q (after_role ext r s) = path_of q s"
    using process_file_content_of(2)[OF pf] pf by (simp add: after_role_def)
  show "ui (after_role ext r s) = ui s"
    using process_file_content_of(3)[OF pf] pf by (simp add: after_role_def)
  show "content_of (other r) (after_role ext r s) = content_of (other r) s"
    using process_file_content_of(1)[OF pf] pf by (simp add: after_role_def)
qed

lemma after_role_idle:
  "content_of r s \<noteq> None \<or> \<not> truthy (path_of r s) \<Longrightarrow> after_role ext r s = s"
  by (auto simp: after_role_def)

lemma after_role_calls:
  "\<exists>new. calls (after_role ext r s) = calls s @ new \<and> list_all is_extraction_step new"
proof (cases "truthy (path_of r s) \<and> content_of r s = None")
  case True
  obtain out s' where pf: "process_file ext (the (path_of r s)) (label r) s = (out, s')"
    by (rule prod.exhaust)
  from process_file_calls[OF pf] obtain new where
    "calls s' = calls s @ Process_file (the (path_of r s)) (label r) # new"
    "list_all (is_extraction_of (the (path_of r s))) new" by blast
  then have "calls s' = calls s @ (Process_file (the (path_of r s)) (label r) # new) \<and>
             list_all is_extraction_step (Process_file (the (path_of r s)) (label r) # new)"
    by (auto simp: list_all_iff intro: extraction_of_step)
  then show ?thesis using True pf by (auto simp: after_role_def)
next
  case False
  then have "after_role ext r s = s" by (auto simp: after_role_def)
  then show ?thesis by (auto intro: exI[of _ "[]"])
qed

lemma reextract_missing_world:
  "snd (reextract_missing ext s) = after_role ext Purchase_order (after_role ext Invoice s)"
  by (simp add: reextract_missing_unfold)

lemma reextract_missing_calls:
  "\<exists>new. calls (snd (reextract_missing ext s)) = calls s @ new \<and> list_all is_extraction_step new"
proof -
  from after_role_calls[of ext Invoice s] obtain n1 where
    n1: "calls (after_role ext Invoice s) = calls s @ n1" "list_all is_extraction_step n1" by blast
  from after_role_calls[of ext Purchase_order "after_role ext Invoice s"] obtain n2 where
    n2: "calls (after_role ext Purchase_order (after_role ext Invoice s)) =
           calls (after_role ext Invoice s) @ n2" "list_all is_extraction_step n2" by blast
  have "calls (snd (reextract_missing ext s)) = calls s @ (n1 @ n2) \<and>
        list_all is_extraction_step (n1 @ n2)"
    using n1 n2 by (simp add: reextract_missing_world)
  then show ?thesis by blast
qed

lemma reextract_missing_frame:
  "path_of q (snd (reextract_missing ext s)) = path_of q s"
  "ui (snd (reextract_missing ext s)) = ui s"
  by (simp_all add: reextract_missing_world after_role_frame)

lemma reextract_missing_idle:
  "\<not> content_missing s \<Longrightarrow> reextract_missing ext s = (Inr (), s)"
  by (simp add: reextract_missing_unfold after_role_idle content_missing_def)

lemma reextract_missing_content:
  "\<not> truthy (path_of r s) \<Longrightarrow> content_of r (snd (reextract_missing ext s)) = content_of r s"
proof (cases r)
  case Invoice
  assume "\<not> truthy (path_of r s)"
  then have "after_role ext Invoice s = s" using Invoice by (simp add: after_role_idle)
  then show ?thesis
    using Invoice after_role_frame(3)[where ext=ext and r=Purchase_order and s=s]
    by (simp add: reextract_missing_world)
next
  case Purchase_order
  assume "\<not> truthy (path_of r s)"
  then have "\<not> truthy (path_of Purchase_order (after_role ext Invoice s))"
    using Purchase_order by (simp add: after_role_frame)
  then have "after_role ext Purchase_order (after_role ext Invoice s) = after_role ext Invoice s"
    by (simp add: after_role_idle)
  then show ?thesis
    using Purchase_order after_role_frame(3)[where ext=ext and r=Invoice and s=s]
    by (simp add: reextract_missing_world)
qed

lemma generate_summary_unfold:
  "generate_summary ext ip pp s =
     (if content_missing (snd (reextract_missing ext s))
      then (Inr precondition_message, snd (reextract_missing ext s))
      else request_summary ext (snd (reextract_missing ext s)))"
proof (cases "content_missing s")
  case True
  then show ?thesis
    by (simp add: generate_summary_def pbind_def reextract_missing_unfold returns_def)
next
  case False
  then show ?thesis
    by (simp add: generate_summary_def reextract_missing_idle)
qed


lemma propagates_call:
  assumes "\<And>h. raised ext h ev = failure (f h)" and "is_summary_step ev"
  shows "propagates_at ext (ext_call ev f) s"
  unfolding propagates_at_def
  by (rule exI[of _ "[ev]"]) (cases "f (calls s)"; simp add: ext_call_def assms)

lemma propagates_bind:
  assumes ev: "\<And>h. raised ext h ev = failure (f h)" and kind: "is_summary_step ev"
    and rest: "\<And>x s'. propagates_at ext (k x) s'"
  shows "propagates_at ext (pbind (ext_call ev f) k) s"
proof (cases "f (calls s)")
  case (Inl e)
  show ?thesis
    unfolding propagates_at_def
    by (rule exI[of _ "[ev]"]) (simp add: pbind_def ext_call_def Inl ev kind)
next
  case (Inr x)
  let ?s1 = "s\<lparr>calls := calls s @ [ev]\<rparr>"
  from rest[of x ?s1] obtain new where
    w: "snd (k x ?s1) = ?s1\<lparr>calls := calls ?s1 @ new\<rparr>" and
    ks: "list_all is_summary_step new" and
    up: "\<forall>j<length new. \<forall>e. raised ext (calls ?s1 @ take j new) (new ! j) = Some e \<longrightarrow>
             fst (k x ?s1) = Inl e \<and> Suc j = length new" and
    down: "\<forall>e. fst (k x ?s1) = Inl e \<longrightarrow>
             new \<noteq> [] \<and> raised ext (calls ?s1 @ butlast new) (last new) = Some e"
    unfolding propagates_at_def by blast
  have run: "pbind (ext_call ev f) k s = k x ?s1"
    by (simp add: pbind_def ext_call_def Inr)
  have first: "raised ext (calls s) ev = None"
    by (simp add: ev Inr)
  show ?thesis
    unfolding propagates_at_def
  proof (rule exI[of _ "ev # new"], intro conjI allI impI)
    show "snd (pbind (ext_call ev f) k s) = s\<lparr>calls := calls s @ ev # new\<rparr>"
      using w by (simp add: run)
    show "list_all is_summary_step (ev # new)"
      using ks kind by simp
  next
    fix j e
    assume j: "j < length (ev # new)"
      and r: "raised ext (calls s @ take j (ev # new)) ((ev # new) ! j) = Some e"
    show "fst (pbind (ext_call ev f) k s) = Inl e" "Suc j = length (ev # new)"
    proof -
      obtain i where i: "j = Suc i"
        using r first by (cases j) simp_all
      have "i < length new" using j i by simp
      moreover have "raised ext (calls ?s1 @ take i new) (new ! i) = Some e"
        using r i by simp
      ultimately have "fst (k x ?s1) = Inl e \<and> Suc i = length new"
        using up by blast
      then show "fst (pbind (ext_call ev f) k s) = Inl e" "Suc j = length (ev # new)"
        using i by (simp_all add: run)
    qed
  next
    fix e
    assume "fst (pbind (ext_call ev f) k s) = Inl e"
    then have "new \<noteq> [] \<and> raised ext (calls ?s1 @ butlast new) (last new) = Some e"
      using down by (simp add: run)
    then show "ev # new \<noteq> []" "raised ext (calls s @ butlast (ev # new)) (last (ev # new)) = Some e"
      by simp_all
  qed
qed

lemma propagates_invoke:
  "propagates_at ext (\<lambda>s. ext_call (Llm_invoke (g s)) (\<lambda>h. llm_invoke ext h (g s)) s) s"
  using propagates_call[of ext "Llm_invoke (g s)" "\<lambda>h. llm_invoke ext h (g s)" s]
  by (simp add: propagates_at_def)

lemma propagates_request_summary: "propagates_at ext (request_summary ext) s"
  unfolding request_summary_def Let_def
  by (intro propagates_bind propagates_invoke) simp_all


lemma upload_session_raised:
  assumes "named_temporary_file ext (calls s) (upload_suffix f) (getvalue f) = Inl e"
  shows "fst (process_uploaded_file ext f (label r) s) = Inl e"
    and "content_of q (snd (process_uploaded_file ext f (label r) s)) = content_of q s"
    and "path_of q (snd (process_uploaded_file ext f (label r) s)) = path_of q s"
  by (simp_all add: upload_raises[OF assms])

lemma upload_session_done:
  assumes tmp: "named_temporary_file ext (calls s) (upload_suffix f) (getvalue f) = Inr g"
  shows "\<exists>res. fst (process_uploaded_file ext f (label r) s) = Inr (Some res, g @ upload_suffix f) \<and>
           (case res of
              Extracted c \<Rightarrow> content_of r (snd (process_uploaded_file ext f (label r) s)) = Some c
            | Message m \<Rightarrow>
                content_of r (snd (process_uploaded_file ext f (label r) s)) = content_of r s)"
    and "path_of r (snd (process_uploaded_file ext f (label r) s)) = Some (g @ upload_suffix f)"
    and "path_of (other r) (snd (process_uploaded_file ext f (label r) s)) = path_of (other r) s"
    and "content_of (other r) (snd (process_uploaded_file ext f (label r) s)) =
           content_of (other r) s"
proof -
  obtain out s1 where pf: "process_file ext (g @ upload_suffix f) (label r)
               (s\<lparr>calls := calls s @ [Named_temporary_file (upload_suffix f) (getvalue f)],
                  ui := ui s @ saving_ui f (label r) @
                        [St_progress 20, Status_text ''Extracting data...'']\<rparr>) = (out, s1)"
    by (rule prod.exhaust)
  from upload_completes[OF tmp pf] obtain res where out: "out = Inr res" and
    up: "process_uploaded_file ext f (label r) s =
             (Inr (Some res, g @ upload_suffix f),
              if label r = ''invoice''
              then s1\<lparr>invoice_path := Some (g @ upload_suffix f), ui := ui s1 @ success_ui f\<rparr>
              else s1\<lparr>po_path := Some (g @ upload_suffix f), ui := ui s1 @ success_ui f\<rparr>)"
    by blast
  have keep: "\<And>m. res = Message m \<Longrightarrow> content_of r s1 = content_of r s"
    using process_file_content_of(5)[OF pf] out by simp
  have repl: "\<And>c. res = Extracted c \<Longrightarrow> content_of r s1 = Some c"
    using process_file_content_of(4)[OF pf] out by simp
  have frame: "path_of (other r) s1 = path_of (other r) s"
      "content_of (other r) s1 = content_of (other r) s"
    using process_file_content_of(1)[OF pf] process_file_content_of(2)[OF pf] by simp_all
  show "\<exists>res. fst (process_uploaded_file ext f (label r) s) = Inr (Some res, g @ upload_suffix f) \<and>
           (case res of
              Extracted c \<Rightarrow> content_of r (snd (process_uploaded_file ext f (label r) s)) = Some c
            | Message m \<Rightarrow>
                content_of r (snd (process_uploaded_file ext f (label r) s)) = content_of r s)"
    using keep repl up by (cases r; cases res) simp_all
  show "path_of r (snd (process_uploaded_file ext f (label r) s)) = Some (g @ upload_suffix f)"
    using up by (cases r) simp_all
  show "path_of (other r) (snd (process_uploaded_file ext f (label r) s)) = path_of (other r) s"
    using frame up by (cases r) simp_all
  show "content_of (other r) (snd (process_uploaded_file ext f (label r) s)) =
           content_of (other r) s"
    using frame up by (cases r) simp_all
qed

lemma other_cases: "q = r \<or> q = other r"
  by (cases q; cases r) simp_all

lemma request_summary_world:
  "\<exists>new. snd (request_summary ext s) = s\<lparr>calls := calls s @ new\<rparr> \<and> list_all is_summary_step new"
  using propagates_request_summary[of ext s] unfolding propagates_at_def by blast

lemma generate_summary_session:
  "content_of r (snd (generate_summary ext ip pp s)) = content_of r (snd (reextract_missing ext s))"
  "path_of r (snd (generate_summary ext ip pp s)) = path_of r s"
  "ui (snd (generate_summary ext ip pp s)) = ui s"
proof -
  obtain new where
    w: "snd (request_summary ext (snd (reextract_missing ext s))) =
          (snd (reextract_missing ext s))\<lparr>calls := calls (snd (reextract_missing ext s)) @ new\<rparr>"
    using request_summary_world by blast
  show "content_of r (snd (generate_summary ext ip pp s)) =
          content_of r (snd (reextract_missing ext s))"
    by (simp add: generate_summary_unfold w)
  show "path_of r (snd (generate_summary ext ip pp s)) = path_of r s"
    by (simp add: generate_summary_unfold w reextract_missing_frame)
  show "ui (snd (generate_summary ext ip pp s)) = ui s"
    by (simp add: generate_summary_unfold w reextract_missing_frame)
qed

lemma main_compare_session:
  "content_of r (snd (main_compare ext s)) = content_of r s \<or>
   content_of r (snd (main_compare ext s)) = content_of r (snd (reextract_missing ext s))"
  "path_of r (snd (main_compare ext s)) = path_of r s"
proof -
  obtain out s' where g: "generate_summary ext (invoice_path s) (po_path s) s = (out, s')"
    by (rule prod.exhaust)
  have c: "content_of r s' = content_of r (snd (reextract_missing ext s))"
    and q: "path_of r s' = path_of r s"
    using generate_summary_session(1,2)[of r ext "invoice_path s" "po_path s" s] g by simp_all
  show "content_of r (snd (main_compare ext s)) = content_of r s \<or>
   content_of r (snd (main_compare ext s)) = content_of r (snd (reextract_missing ext s))"
    using c g by (cases out) (simp_all add: main_compare_def pbind_def render_def)
  show "path_of r (snd (main_compare ext s)) = path_of r s"
    using q g by (cases out) (simp_all add: main_compare_def pbind_def render_def)
qed

lemma reachable_content_needs_path:
  "reachable ext s \<Longrightarrow> path_of r s = None \<Longrightarrow> content_of r s = None"
proof (induction arbitrary: r rule: reachable.induct)
  case start
  then show ?case by (cases r) (simp_all add: initial_world_def)
next
  case (upload s f r0)
  show ?case
  proof (cases "named_temporary_file ext (calls s) (upload_suffix f) (getvalue f)")
    case (Inl e)
    then show ?thesis
      using upload upload_session_raised(2,3)[OF Inl] by simp
  next
    case (Inr g)
    from other_cases[of r r0] show ?thesis
    proof
      assume "r = r0"
      then show ?thesis using upload.prems upload_session_done(2)[OF Inr, of r0] by simp
    next
      assume "r = other r0"
      then show ?thesis
        using upload upload_session_done(3,4)[OF Inr, of r0] by simp
    qed
  qed
next
  case (summary s ip pp)
  from summary.prems have none: "path_of r s = None"
    by (simp add: generate_summary_session)
  then have "\<not> truthy (path_of r s)" by (simp add: truthy_def)
  then show ?case
    using summary.IH[OF none] by (simp add: generate_summary_session reextract_missing_content)
next
  case (compare s)
  from compare.prems have none: "path_of r s = None"
    by (simp add: main_compare_session)
  then have "\<not> truthy (path_of r s)" by (simp add: truthy_def)
  then have "content_of r (snd (reextract_missing ext s)) = None"
    using compare.IH[OF none] by (simp add: reextract_missing_content)
  then show ?case
    using main_compare_session(1)[of r ext s] compare.IH[OF none] by auto
qed


lemma summary_step_kind:
  "is_summary_step e \<Longrightarrow> \<not> is_process_file_call e \<and> \<not> is_extraction_step e"
  by (cases e) simp_all

lemma extraction_of_kind: "is_extraction_of p e \<Longrightarrow> \<not> is_process_file_call e"
  by (cases e) simp_all

lemma generate_summary_calls:
  "\<exists>new. calls (snd (generate_summary ext ip pp s)) = calls (snd (reextract_missing ext s)) @ new \<and>
         list_all is_summary_step new \<and>
         (content_missing (snd (reextract_missing ext s)) \<longrightarrow> new = [])"
proof (cases "content_missing (snd (reextract_missing ext s))")
  case True
  then show ?thesis by (simp add: generate_summary_unfold)
next
  case False
  from request_summary_world[of ext "snd (reextract_missing ext s)"] obtain new where
    "snd (request_summary ext (snd (reextract_missing ext s))) =
       (snd (reextract_missing ext s))\<lparr>calls := calls (snd (reextract_missing ext s)) @ new\<rparr>"
    "list_all is_summary_step new" by blast
  then show ?thesis using False by (simp add: generate_summary_unfold)
qed

lemma single_reextraction:
  assumes path: "truthy (path_of r s)" and missing: "content_of r s = None"
    and present: "content_of (other r) s \<noteq> None"
  shows "reextract_missing ext s = (Inr (), snd (process_file ext (the (path_of r s)) (label r) s))"
    and "\<exists>new. calls (snd (generate_summary ext ip pp s)) =
                 calls s @ Process_file (the (path_of r s)) (label r) # new \<and>
               list_all (\<lambda>e. \<not> is_process_file_call e \<and>
                             (is_extraction_step e \<longrightarrow> is_extraction_of (the (path_of r s)) e)) new"
proof -
  let ?s1 = "snd (process_file ext (the (path_of r s)) (label r) s)"
  have step: "after_role ext r s = ?s1"
    using path missing by (simp add: after_role_def)
  have w: "snd (reextract_missing ext s) = ?s1"
  proof (cases r)
    case Invoice
    have "content_of Purchase_order (after_role ext Invoice s) \<noteq> None"
      using present Invoice after_role_frame(3)[where ext=ext and r=Invoice and s=s] by simp
    then have "after_role ext Purchase_order (after_role ext Invoice s) = after_role ext Invoice s"
      by (simp add: after_role_idle)
    then show ?thesis using step Invoice by (simp add: reextract_missing_world)
  next
    case Purchase_order
    have "after_role ext Invoice s = s"
      using present Purchase_order by (simp add: after_role_idle)
    then show ?thesis using step Purchase_order by (simp add: reextract_missing_world)
  qed
  show "reextract_missing ext s = (Inr (), ?s1)"
    using w by (simp add: reextract_missing_unfold)
  obtain out s' where pf: "process_file ext (the (path_of r s)) (label r) s = (out, s')"
    by (rule prod.exhaust)
  from process_file_calls[OF pf] obtain n1 where
    n1: "calls ?s1 = calls s @ Process_file (the (path_of r s)) (label r) # n1"
      "list_all (is_extraction_of (the (path_of r s))) n1"
    using pf by auto
  from generate_summary_calls[of ext ip pp s] obtain n2 where
    n2: "calls (snd (generate_summary ext ip pp s)) = calls ?s1 @ n2" "list_all is_summary_step n2"
    using w by auto
  have "calls (snd (generate_summary ext ip pp s)) =
          calls s @ Process_file (the (path_of r s)) (label r) # (n1 @ n2)"
    using n1 n2 by simp
  moreover have "list_all (\<lambda>e. \<not> is_process_file_call e \<and>
                     (is_extraction_step e \<longrightarrow> is_extraction_of (the (path_of r s)) e)) (n1 @ n2)"
    using n1(2) n2(2) by (auto simp: list_all_iff dest: summary_step_kind extraction_of_kind)
  ultimately show "\<exists>new. calls (snd (generate_summary ext ip pp s)) =
                 calls s @ Process_file (the (path_of r s)) (label r) # new \<and>
               list_all (\<lambda>e. \<not> is_process_file_call e \<and>
                             (is_extraction_step e \<longrightarrow> is_extraction_of (the (path_of r s)) e)) new"
    by blast
qed

lemmas summary_defs =
  generate_summary_def reextract_missing_def request_summary_def content_missing_def truthy_def
  str_field_def main_compare_def precondition_message_def

lemmas more_fixture_defs =
  llm_down_def pdf_service_flaky_def world_both_ready_def world_po_ready_def
  world_invoice_pending_def

section \<open>The claims\<close>

text \<open>
  C1, as the specification states it: uploading a new file for a role resets that role's
  extracted content to absent, so that after a failed extraction the content is absent
  whatever it was before. The program has no such reset. Here the invoice role already
  holds content, a new PDF is uploaded and Document Intelligence fails: the upload
  returns the error string and the old content is still in the session.
\<close>

theorem C1_counterexample:
  "fst (process_uploaded_file pdf_service_down invoice_pdf (label Invoice) world_with_invoice) =
     Inr (Some (Message ''Error: service unavailable''), ''/tmp/tmp.pdf'') \<and>
   content_of Invoice
     (snd (process_uploaded_file pdf_service_down invoice_pdf (label Invoice) world_with_invoice)) =
     Some (''Invoice 41'', [])"
  by (simp add: run_defs fixture_defs)


text \<open>
  C1, amended: an upload that completes stores the fresh path for its role; when the
  extraction succeeds the role's content is the new result, and when it fails the role's
  content is exactly what it was before the upload.
\<close>

theorem C1_upload_replaces_or_keeps_content:
  assumes "fst (process_uploaded_file ext f (label r) s) = Inr (res, p)"
  shows "path_of r (snd (process_uploaded_file ext f (label r) s)) = Some p \<and>
         (case res of
            None \<Rightarrow> False
          | Some (Extracted c) \<Rightarrow>
              content_of r (snd (process_uploaded_file ext f (label r) s)) = Some c
          | Some (Message m) \<Rightarrow>
              content_of r (snd (process_uploaded_file ext f (label r) s)) = content_of r s)"
proof (cases "named_temporary_file ext (calls s) (upload_suffix f) (getvalue f)")
  case (Inl e)
  then show ?thesis
    using assms upload_session_raised(1)[OF Inl, of r] by simp
next
  case (Inr g)
  from upload_session_done(1)[OF Inr, of r] assms obtain got where
    "res = Some got" "p = g @ upload_suffix f"
    "case got of
       Extracted c \<Rightarrow> content_of r (snd (process_uploaded_file ext f (label r) s)) = Some c
     | Message m \<Rightarrow> content_of r (snd (process_uploaded_file ext f (label r) s)) = content_of r s"
    by auto
  then show ?thesis
    using upload_session_done(2)[OF Inr, of r] by (cases got) simp_all
qed

theorem C1_witness:
  "fst (process_uploaded_file pdf_service_down invoice_pdf (label Invoice) world_with_invoice) =
     Inr (Some (Message ''Error: service unavailable''), ''/tmp/tmp.pdf'') \<and>
   path_of Invoice
     (snd (process_uploaded_file pdf_service_down invoice_pdf (label Invoice) world_with_invoice)) =
     Some ''/tmp/tmp.pdf'' \<and>
   content_of Invoice
     (snd (process_uploaded_file pdf_service_down invoice_pdf (label Invoice) world_with_invoice)) =
     content_of Invoice world_with_invoice"
proof -
  have h: "fst (process_uploaded_file pdf_service_down invoice_pdf (label Invoice) world_with_invoice) =
     Inr (Some (Message ''Error: service unavailable''), ''/tmp/tmp.pdf'')"
    by (simp add: run_defs fixture_defs)
  from C1_upload_replaces_or_keeps_content[OF h] h show ?thesis by simp
qed


text \<open>
  C8: whether an upload for a role succeeds, fails in extraction or fails while the file
  is written, the other role's path and content are what they were.
\<close>

theorem C8_other_role_unchanged:
  "path_of (other r) (snd (process_uploaded_file ext f (label r) s)) = path_of (other r) s \<and>
   content_of (other r) (snd (process_uploaded_file ext f (label r) s)) = content_of (other r) s"
proof (cases "named_temporary_file ext (calls s) (upload_suffix f) (getvalue f)")
  case (Inl e)
  then show ?thesis
    by (simp add: upload_session_raised(2,3)[OF Inl])
next
  case (Inr g)
  then show ?thesis
    by (simp add: upload_session_done(3,4)[OF Inr])
qed


text \<open>
  C9: \<^verbatim>\<open>process_file\<close> never raises: it returns the content it stored, or a string that
  begins with \<^verbatim>\<open>Error: \<close>. Hence, whenever the temporary file is written, the
  \<^verbatim>\<open>except\<close> branch of \<^verbatim>\<open>process_uploaded_file\<close> is not taken: the result carries the value
  of \<^verbatim>\<open>process_file\<close>, the path is stored for the role, and the rendered elements are
  those of the \<^verbatim>\<open>try\<close> body, with no \<^verbatim>\<open>st.error\<close>.
\<close>

theorem C9_process_file_never_raises:
  "(\<exists>res s'. process_file ext p (label r) s = (Inr res, s') \<and>
       (case res of Extracted c \<Rightarrow> content_of r s' = Some c
                  | Message m \<Rightarrow> take 7 m = ''Error: '')) \<and>
   (named_temporary_file ext (calls s) (upload_suffix f) (getvalue f) = Inr g \<longrightarrow>
      (\<exists>res s'. process_uploaded_file ext f (label r) s = (Inr (Some res, g @ upload_suffix f), s') \<and>
         path_of r s' = Some (g @ upload_suffix f) \<and>
         ui s' = ui s @ saving_ui f (label r) @
                   [St_progress 20, Status_text ''Extracting data...''] @ success_ui f))"
proof (intro conjI impI)
  obtain out s' where pf: "process_file ext p (label r) s = (out, s')"
    by (rule prod.exhaust)
  from process_file_result[OF pf] process_file_content_of(4)[OF pf]
  show "\<exists>res s'. process_file ext p (label r) s = (Inr res, s') \<and>
       (case res of Extracted c \<Rightarrow> content_of r s' = Some c
                  | Message m \<Rightarrow> take 7 m = ''Error: '')"
    using pf by auto
next
  assume tmp: "named_temporary_file ext (calls s) (upload_suffix f) (getvalue f) = Inr g"
  obtain out s1 where pf: "process_file ext (g @ upload_suffix f) (label r)
               (s\<lparr>calls := calls s @ [Named_temporary_file (upload_suffix f) (getvalue f)],
                  ui := ui s @ saving_ui f (label r) @
                        [St_progress 20, Status_text ''Extracting data...'']\<rparr>) = (out, s1)"
    by (rule prod.exhaust)
  from upload_completes[OF tmp pf] obtain res where
    up: "process_uploaded_file ext f (label r) s =
             (Inr (Some res, g @ upload_suffix f),
              if label r = ''invoice''
              then s1\<lparr>invoice_path := Some (g @ upload_suffix f), ui := ui s1 @ success_ui f\<rparr>
              else s1\<lparr>po_path := Some (g @ upload_suffix f), ui := ui s1 @ success_ui f\<rparr>)"
    by blast
  have "ui s1 = ui s @ saving_ui f (label r) @ [St_progress 20, Status_text ''Extracting data...'']"
    using process_file_content_of(3)[OF pf] by simp
  then show "\<exists>res s'. process_uploaded_file ext f (label r) s = (Inr (Some res, g @ upload_suffix f), s') \<and>
         path_of r s' = Some (g @ upload_suffix f) \<and>
         ui s' = ui s @ saving_ui f (label r) @
                   [St_progress 20, Status_text ''Extracting data...''] @ success_ui f"
    using up by (cases r) simp_all
qed

theorem C9_witness:
  "named_temporary_file services_up (calls (initial_world :: csv_table world))
      (upload_suffix invoice_pdf) (getvalue invoice_pdf) = Inr ''/tmp/tmp'' \<and>
   (\<exists>res s'. process_file services_up ''/tmp/tmp.pdf'' (label Invoice) initial_world = (Inr res, s')) \<and>
   (\<exists>res s'. process_uploaded_file services_up invoice_pdf (label Invoice) initial_world =
        (Inr (Some res, ''/tmp/tmp'' @ upload_suffix invoice_pdf), s') \<and>
      path_of Invoice s' = Some (''/tmp/tmp'' @ upload_suffix invoice_pdf))"
proof -
  have h: "named_temporary_file services_up (calls (initial_world :: csv_table world))
      (upload_suffix invoice_pdf) (getvalue invoice_pdf) = Inr ''/tmp/tmp''"
    by (simp add: fixture_defs)
  from C9_process_file_never_raises[of services_up "''/tmp/tmp.pdf''" Invoice initial_world
      invoice_pdf "''/tmp/tmp''"] h
  show ?thesis by blast
qed

text \<open>
  C2: an upload whose extraction fails still stores the path of the temporary file and
  raises nothing, but the failure is not shown. With Document Intelligence failing on
  \<^verbatim>\<open>invoice.pdf\<close>, and equally for \<^verbatim>\<open>invoice.docx\<close>, the string \<^verbatim>\<open>Error: ...\<close> is only the
  first component of the value returned to \<^verbatim>\<open>main\<close>, which drops it, and the page shows the
  status of a finished extraction and \<^verbatim>\<open>Extracted Successfully\<close>; \<^verbatim>\<open>st.error\<close> is never
  called.
\<close>

theorem C2_failed_extraction_rendered_as_success:
  "process_uploaded_file pdf_service_down invoice_pdf ''invoice'' initial_world =
     (Inr (Some (Message ''Error: service unavailable''), ''/tmp/tmp.pdf''),
      \<lparr>invoice_content = None, po_content = None,
       invoice_path = Some ''/tmp/tmp.pdf'', po_path = None,
       calls = [Named_temporary_file ''.pdf'' ''%PDF-1.4'',
                Process_file ''/tmp/tmp.pdf'' ''invoice'',
                Azure_document_intelligence ''/tmp/tmp.pdf''],
       ui = [St_write ''Processing invoice: invoice.pdf'', St_progress 0,
             Status_text ''Saving file...'', St_progress 20,
             Status_text ''Extracting data...'', St_progress 100, Status_text done_text,
             St_expander ''Results: invoice.pdf'', St_markdown ''Extracted Successfully'']\<rparr>) \<and>
   main_extract pdf_service_down invoice_pdf ''invoice'' initial_world =
     (Inr (), snd (process_uploaded_file pdf_service_down invoice_pdf ''invoice'' initial_world)) \<and>
   fst (process_uploaded_file services_up invoice_docx ''invoice'' initial_world) =
     Inr (Some (Message ''Error: Unsupported file format: .docx''), ''/tmp/tmp.docx'') \<and>
   ui (snd (main_extract services_up invoice_docx ''invoice'' initial_world)) =
     [St_write ''Processing invoice: invoice.docx'', St_progress 0,
      Status_text ''Saving file...'', St_progress 20,
      Status_text ''Extracting data...'', St_progress 100, Status_text done_text,
      St_expander ''Results: invoice.docx'', St_markdown ''Extracted Successfully'']"
  by (simp add: main_extract_def run_defs fixture_defs)

text \<open>
  C5: \<^verbatim>\<open>process_file\<close> looks only at the end of the lowered path. A path whose last four
  characters are \<^verbatim>\<open>.pdf\<close> in any letter case is handed to \<^verbatim>\<open>extract_content_from_pdf\<close>,
  one that ends in \<^verbatim>\<open>.csv\<close> in any letter case to \<^verbatim>\<open>extract_content_from_csv\<close>, and for
  every other path the result is the message of the unsupported format, with no call of
  an extraction library: the only call recorded is the entry into \<^verbatim>\<open>process_file\<close>.
\<close>

theorem C5_dispatch_on_extension:
  "(endswith (lower p) ''.pdf'' \<longleftrightarrow> (\<exists>stem e. p = stem @ e \<and> lower e = ''.pdf'')) \<and>
   (endswith (lower p) ''.csv'' \<longleftrightarrow> (\<exists>stem e. p = stem @ e \<and> lower e = ''.csv'')) \<and>
   (endswith (lower p) ''.pdf'' \<longrightarrow>
      process_file ext p d s =
        (case extract_content_from_pdf ext p (s\<lparr>calls := calls s @ [Process_file p d]\<rparr>) of
           (Inl e, s1) \<Rightarrow> (Inr (Message (''Error: '' @ exc_str e)), s1)
         | (Inr c, s1) \<Rightarrow> (Inr (Extracted c), snd (store_content d c s1)))) \<and>
   (endswith (lower p) ''.csv'' \<longrightarrow>
      process_file ext p d s =
        (case extract_content_from_csv ext p (s\<lparr>calls := calls s @ [Process_file p d]\<rparr>) of
           (Inl e, s1) \<Rightarrow> (Inr (Message (''Error: '' @ exc_str e)), s1)
         | (Inr c, s1) \<Rightarrow> (Inr (Extracted c), snd (store_content d c s1)))) \<and>
   (\<not> endswith (lower p) ''.pdf'' \<and> \<not> endswith (lower p) ''.csv'' \<longrightarrow>
      process_file ext p d s =
        (Inr (Message (''Error: Unsupported file format: '' @ snd (splitext p))),
         s\<lparr>calls := calls s @ [Process_file p d]\<rparr>))"
proof (intro conjI impI)
  show "endswith (lower p) ''.pdf'' \<longleftrightarrow> (\<exists>stem e. p = stem @ e \<and> lower e = ''.pdf'')"
    by (rule endswith_lower_iff)
  show "endswith (lower p) ''.csv'' \<longleftrightarrow> (\<exists>stem e. p = stem @ e \<and> lower e = ''.csv'')"
    by (rule endswith_lower_iff)
next
  assume "endswith (lower p) ''.pdf''"
  then show "process_file ext p d s =
        (case extract_content_from_pdf ext p (s\<lparr>calls := calls s @ [Process_file p d]\<rparr>) of
           (Inl e, s1) \<Rightarrow> (Inr (Message (''Error: '' @ exc_str e)), s1)
         | (Inr c, s1) \<Rightarrow> (Inr (Extracted c), snd (store_content d c s1)))"
    by (simp add: process_file_unfold dispatch_def store_content_def split: prod.splits sum.splits)
next
  assume csv: "endswith (lower p) ''.csv''"
  have "\<not> endswith (lower p) ''.pdf''"
    using endswith_same_length[OF csv, of "''.pdf''"] by auto
  with csv show "process_file ext p d s =
        (case extract_content_from_csv ext p (s\<lparr>calls := calls s @ [Process_file p d]\<rparr>) of
           (Inl e, s1) \<Rightarrow> (Inr (Message (''Error: '' @ exc_str e)), s1)
         | (Inr c, s1) \<Rightarrow> (Inr (Extracted c), snd (store_content d c s1)))"
    by (simp add: process_file_unfold dispatch_def store_content_def split: prod.splits sum.splits)
next
  assume "\<not> endswith (lower p) ''.pdf'' \<and> \<not> endswith (lower p) ''.csv''"
  then show "process_file ext p d s =
        (Inr (Message (''Error: Unsupported file format: '' @ snd (splitext p))),
         s\<lparr>calls := calls s @ [Process_file p d]\<rparr>)"
    by (simp add: process_file_unfold dispatch_def raises_def)
qed

theorem C5_witness:
  "endswith (lower ''/tmp/Scan.PDF'') ''.pdf'' \<and>
   process_file services_up ''/tmp/Scan.PDF'' ''invoice'' initial_world =
     (Inr (Extracted (''Invoice 42'', [])),
      initial_world\<lparr>invoice_content := Some (''Invoice 42'', []),
        calls := [Process_file ''/tmp/Scan.PDF'' ''invoice'',
                  Azure_document_intelligence ''/tmp/Scan.PDF'', Extract_text ''/tmp/Scan.PDF'',
                  Extract_tables ''/tmp/Scan.PDF'']\<rparr>) \<and>
   endswith (lower ''/tmp/po.Csv'') ''.csv'' \<and>
   fst (process_file services_up ''/tmp/po.Csv'' ''purchase_order'' initial_world) =
     Inr (Extracted (''itemqtyWidget5'', [([''item'', ''qty''], [[''Widget'', ''5'']])])) \<and>
   \<not> endswith (lower ''/tmp/notes.txt'') ''.pdf'' \<and> \<not> endswith (lower ''/tmp/notes.txt'') ''.csv'' \<and>
   process_file services_up ''/tmp/notes.txt'' ''invoice'' initial_world =
     (Inr (Message ''Error: Unsupported file format: .txt''),
      initial_world\<lparr>calls := [Process_file ''/tmp/notes.txt'' ''invoice'']\<rparr>)"
proof -
  have pdf: "endswith (lower ''/tmp/Scan.PDF'') ''.pdf''"
    and csv: "endswith (lower ''/tmp/po.Csv'') ''.csv''"
    and unsupported: "\<not> endswith (lower ''/tmp/notes.txt'') ''.pdf'' \<and> \<not> endswith (lower ''/tmp/notes.txt'') ''.csv''"
    by (simp_all add: endswith_def lower_def lower_char_def)
  have "splitext ''/tmp/notes.txt'' = (''/tmp/notes'', ''.txt'')"
    by (simp add: splitext_def Let_def)
  with pdf csv unsupported
    C5_dispatch_on_extension[of "''/tmp/Scan.PDF''" services_up "''invoice''" initial_world]
    C5_dispatch_on_extension[of "''/tmp/po.Csv''" services_up "''purchase_order''" initial_world]
    C5_dispatch_on_extension[of "''/tmp/notes.txt''" services_up "''invoice''" initial_world]
  show ?thesis
    by (simp add: extract_content_from_pdf_def extract_content_from_csv_def store_content_def
        prog_defs services_up_def initial_world_def)
qed

text \<open>
  C6: when \<^verbatim>\<open>pd.read_csv\<close> parses the file into a table, \<^verbatim>\<open>extract_content_from_csv\<close>
  returns the pair of that table's \<^verbatim>\<open>to_string(index=False)\<close> rendering and the list
  holding that one table. Which table pandas builds from the bytes of a file, and how it
  types its cells, is the library's part and is a parameter here; the instance below takes
  the table with the single data row \<^verbatim>\<open>["Widget", "5"]\<close>.
\<close>

theorem C6_csv_extraction:
  assumes "read_csv ext (calls s) csv_path = Inr df"
  shows "extract_content_from_csv ext csv_path s =
           (Inr (to_string ext df, [df]), s\<lparr>calls := calls s @ [Read_csv csv_path]\<rparr>)"
  using assms by (simp add: extract_content_from_csv_def prog_defs)

theorem C6_witness:
  "read_csv services_up (calls (initial_world :: csv_table world)) ''/tmp/tmp.csv'' =
     Inr ([''item'', ''qty''], [[''Widget'', ''5'']]) \<and>
   extract_content_from_csv services_up ''/tmp/tmp.csv'' initial_world =
     (Inr (to_string services_up ([''item'', ''qty''], [[''Widget'', ''5'']]),
           [([''item'', ''qty''], [[''Widget'', ''5'']])]),
      initial_world\<lparr>calls := [Read_csv ''/tmp/tmp.csv'']\<rparr>)"
proof -
  have h: "read_csv services_up (calls (initial_world :: csv_table world)) ''/tmp/tmp.csv'' =
     Inr ([''item'', ''qty''], [[''Widget'', ''5'']])"
    by (simp add: services_up_def)
  from C6_csv_extraction[OF h] h show ?thesis
    by (simp add: initial_world_def)
qed

text \<open>
  C10: \<^verbatim>\<open>generate_summary\<close> does not read its two parameters: with the same collaborators
  and the same world, any two pairs of arguments give the same result and the same
  world.
\<close>

theorem C10_path_arguments_unused:
  "generate_summary ext invoice_path_arg po_path_arg s =
   generate_summary ext invoice_path_arg' po_path_arg' s"
  by (simp add: generate_summary_def)

text \<open>
  C3: when, after lines 76--79 have run, the content of at least one role is still
  \<^verbatim>\<open>None\<close>, \<^verbatim>\<open>generate_summary\<close> returns the message of line 83, and the calls it has made
  are extraction steps only: no call of the prompt service and none of the language
  model connector. In every world a session can reach, this is the case whenever the
  path of a role is \<^verbatim>\<open>None\<close>, because content is only ever stored for a role whose path
  is stored.
\<close>

theorem C3_precondition_error:
  "(content_missing (snd (reextract_missing ext s)) \<longrightarrow>
      generate_summary ext ip pp s = (Inr precondition_message, snd (reextract_missing ext s)) \<and>
      (\<exists>new. calls (snd (generate_summary ext ip pp s)) = calls s @ new \<and>
             list_all (\<lambda>e. is_extraction_step e \<and> \<not> is_prompt_service_call e \<and> \<not> is_llm_call e)
               new)) \<and>
   (reachable ext s \<and> path_of r s = None \<longrightarrow>
      content_missing (snd (reextract_missing ext s)) \<and>
      fst (generate_summary ext ip pp s) = Inr precondition_message)"
proof (intro conjI impI)
  assume m: "content_missing (snd (reextract_missing ext s))"
  then show g: "generate_summary ext ip pp s =
                  (Inr precondition_message, snd (reextract_missing ext s))"
    by (simp add: generate_summary_unfold)
  from reextract_missing_calls[of ext s] obtain new where
    "calls (snd (reextract_missing ext s)) = calls s @ new" "list_all is_extraction_step new"
    by blast
  then have "calls (snd (generate_summary ext ip pp s)) = calls s @ new \<and>
             list_all (\<lambda>e. is_extraction_step e \<and> \<not> is_prompt_service_call e \<and> \<not> is_llm_call e)
               new"
    using g by (auto simp: list_all_iff dest: extraction_step_kind)
  then show "\<exists>new. calls (snd (generate_summary ext ip pp s)) = calls s @ new \<and>
             list_all (\<lambda>e. is_extraction_step e \<and> \<not> is_prompt_service_call e \<and> \<not> is_llm_call e)
               new"
    by blast
next
  assume a: "reachable ext s \<and> path_of r s = None"
  then have "content_of r s = None"
    using reachable_content_needs_path by blast
  moreover have "\<not> truthy (path_of r s)"
    using a by (simp add: truthy_def)
  ultimately have "content_of r (snd (reextract_missing ext s)) = None"
    by (simp add: reextract_missing_content)
  then show m: "content_missing (snd (reextract_missing ext s))"
    by (cases r) (simp_all add: content_missing_def)
  then show "fst (generate_summary ext ip pp s) = Inr precondition_message"
    by (simp add: generate_summary_unfold)
qed

theorem C3_witness:
  "content_missing (snd (reextract_missing pdf_service_down world_invoice_pending)) \<and>
   generate_summary pdf_service_down None None world_invoice_pending =
     (Inr precondition_message, snd (reextract_missing pdf_service_down world_invoice_pending)) \<and>
   calls (snd (generate_summary pdf_service_down None None world_invoice_pending)) =
     [Process_file ''/tmp/tmp.pdf'' ''invoice'', Azure_document_intelligence ''/tmp/tmp.pdf''] \<and>
   reachable services_up initial_world \<and> path_of Invoice (initial_world :: csv_table world) = None \<and>
   fst (generate_summary services_up None None initial_world) = Inr precondition_message"
proof -
  have missing: "content_missing (snd (reextract_missing pdf_service_down world_invoice_pending))"
    by (simp add: summary_defs run_defs fixture_defs more_fixture_defs)
  have made: "calls (snd (reextract_missing pdf_service_down world_invoice_pending)) =
     [Process_file ''/tmp/tmp.pdf'' ''invoice'', Azure_document_intelligence ''/tmp/tmp.pdf'']"
    by (simp add: summary_defs run_defs fixture_defs more_fixture_defs)
  have start: "reachable services_up initial_world"
    by (rule reachable.start)
  have absent: "path_of Invoice (initial_world :: csv_table world) = None"
    by (simp add: initial_world_def)
  from C3_precondition_error[where ext=pdf_service_down and s=world_invoice_pending and ip=None
      and pp=None and r=Invoice]
    C3_precondition_error[where ext=services_up and s=initial_world and ip=None and pp=None
      and r=Invoice]
    missing made start absent
  show ?thesis by simp
qed

text \<open>
  C4: when the content of exactly one role is missing and that role's path is set,
  lines 76--79 amount to one call of \<^verbatim>\<open>process_file\<close>, on that role's path and with that
  role's name: it is the only entry into \<^verbatim>\<open>process_file\<close> that \<^verbatim>\<open>generate_summary\<close>
  records, and every call of an extraction library is on that path. Nothing remembers a
  failed extraction: after an upload whose extraction failed for a role without content,
  the next \<^verbatim>\<open>generate_summary\<close> calls \<^verbatim>\<open>process_file\<close> on the path that upload stored.
  (The path of the role whose content is present plays no part.)
\<close>

theorem C4_single_reextraction:
  "(truthy (path_of r s) \<and> content_of r s = None \<and> content_of (other r) s \<noteq> None \<longrightarrow>
      reextract_missing ext s =
        (Inr (), snd (process_file ext (the (path_of r s)) (label r) s)) \<and>
      (\<exists>new. calls (snd (generate_summary ext ip pp s)) =
               calls s @ Process_file (the (path_of r s)) (label r) # new \<and>
             list_all (\<lambda>e. \<not> is_process_file_call e \<and>
                           (is_extraction_step e \<longrightarrow> is_extraction_of (the (path_of r s)) e)) new)) \<and>
   (fst (process_uploaded_file ext f (label r) s) = Inr (Some (Message m), p) \<and> p \<noteq> [] \<and>
    content_of r s = None \<and> content_of (other r) s \<noteq> None \<longrightarrow>
      (\<exists>new. calls (snd (generate_summary ext ip pp (snd (process_uploaded_file ext f (label r) s)))) =
               calls (snd (process_uploaded_file ext f (label r) s)) @ Process_file p (label r) # new \<and>
             list_all (\<lambda>e. \<not> is_process_file_call e \<and>
                           (is_extraction_step e \<longrightarrow> is_extraction_of p e)) new))"
proof (intro conjI impI)
  assume a: "truthy (path_of r s) \<and> content_of r s = None \<and> content_of (other r) s \<noteq> None"
  then show "reextract_missing ext s =
        (Inr (), snd (process_file ext (the (path_of r s)) (label r) s))"
    by (simp add: single_reextraction(1))
  from a show "\<exists>new. calls (snd (generate_summary ext ip pp s)) =
               calls s @ Process_file (the (path_of r s)) (label r) # new \<and>
             list_all (\<lambda>e. \<not> is_process_file_call e \<and>
                           (is_extraction_step e \<longrightarrow> is_extraction_of (the (path_of r s)) e)) new"
    using single_reextraction(2)[of r s ext ip pp] by blast
next
  let ?s' = "snd (process_uploaded_file ext f (label r) s)"
  assume a: "fst (process_uploaded_file ext f (label r) s) = Inr (Some (Message m), p) \<and> p \<noteq> [] \<and>
    content_of r s = None \<and> content_of (other r) s \<noteq> None"
  then obtain g where tmp: "named_temporary_file ext (calls s) (upload_suffix f) (getvalue f) = Inr g"
    using upload_session_raised(1)[of ext s f _ r]
    by (cases "named_temporary_file ext (calls s) (upload_suffix f) (getvalue f)") auto
  from upload_session_done(1)[OF tmp, of r] a
  have p: "p = g @ upload_suffix f" and kept: "content_of r ?s' = content_of r s"
    by auto
  have "path_of r ?s' = Some p"
    using upload_session_done(2)[OF tmp, of r] p by simp
  moreover have "content_of (other r) ?s' \<noteq> None"
    using upload_session_done(4)[OF tmp, of r] a by simp
  ultimately have pre: "truthy (path_of r ?s')" "content_of r ?s' = None"
      "content_of (other r) ?s' \<noteq> None" "the (path_of r ?s') = p"
    using a kept by (simp_all add: truthy_def)
  from single_reextraction(2)[OF pre(1,2,3), of ext ip pp] pre(4)
  show "\<exists>new. calls (snd (generate_summary ext ip pp ?s')) =
               calls ?s' @ Process_file p (label r) # new \<and>
             list_all (\<lambda>e. \<not> is_process_file_call e \<and>
                           (is_extraction_step e \<longrightarrow> is_extraction_of p e)) new"
    by simp
qed

theorem C4_witness:
  "truthy (path_of Invoice world_invoice_pending) \<and> content_of Invoice world_invoice_pending = None \<and>
   content_of (other Invoice) world_invoice_pending \<noteq> None \<and>
   reextract_missing pdf_service_down world_invoice_pending =
     (Inr (), snd (process_file pdf_service_down ''/tmp/tmp.pdf'' ''invoice'' world_invoice_pending)) \<and>
   fst (process_uploaded_file pdf_service_flaky invoice_pdf (label Invoice) world_po_ready) =
     Inr (Some (Message ''Error: service unavailable''), ''/tmp/tmp.pdf'') \<and>
   content_of Invoice world_po_ready = None \<and> content_of (other Invoice) world_po_ready \<noteq> None \<and>
   (\<exists>new. calls (snd (generate_summary pdf_service_flaky None None
              (snd (process_uploaded_file pdf_service_flaky invoice_pdf (label Invoice) world_po_ready)))) =
            calls (snd (process_uploaded_file pdf_service_flaky invoice_pdf (label Invoice) world_po_ready))
            @ Process_file ''/tmp/tmp.pdf'' (label Invoice) # new \<and>
          list_all (\<lambda>e. \<not> is_process_file_call e \<and>
                        (is_extraction_step e \<longrightarrow> is_extraction_of ''/tmp/tmp.pdf'' e)) new)"
proof -
  have pending: "truthy (path_of Invoice world_invoice_pending) \<and>
      content_of Invoice world_invoice_pending = None \<and>
      content_of (other Invoice) world_invoice_pending \<noteq> None"
    and path: "the (path_of Invoice world_invoice_pending) = ''/tmp/tmp.pdf''"
    by (simp_all add: truthy_def fixture_defs more_fixture_defs)
  have failed: "fst (process_uploaded_file pdf_service_flaky invoice_pdf (label Invoice) world_po_ready) =
     Inr (Some (Message ''Error: service unavailable''), ''/tmp/tmp.pdf'')"
    by (simp add: run_defs fixture_defs more_fixture_defs)
  have before: "content_of Invoice world_po_ready = None \<and>
      content_of (other Invoice) world_po_ready \<noteq> None"
    by (simp add: fixture_defs more_fixture_defs)
  from C4_single_reextraction[where r=Invoice and s=world_invoice_pending and ext=pdf_service_down
      and ip=None and pp=None]
    C4_single_reextraction[where r=Invoice and s=world_po_ready and ext=pdf_service_flaky
      and ip=None and pp=None and f=invoice_pdf and m="''Error: service unavailable''"
      and p="''/tmp/tmp.pdf''"]
    pending path failed before
  show ?thesis by simp
qed

text \<open>
  C7: once both contents are present after lines 76--79, \<^verbatim>\<open>generate_summary\<close> only makes
  the calls of lines 85--98. If any of them raises, that call is the last one made
  (nothing is tried again) and its exception is the outcome of \<^verbatim>\<open>generate_summary\<close>; an
  exception as outcome is always the one the last call raised; and \<^verbatim>\<open>main\<close>, which has no
  handler around the call, ends with the same exception.
\<close>

theorem C7_failures_propagate:
  assumes "\<not> content_missing (snd (reextract_missing ext s))"
  shows "\<exists>new.
     snd (generate_summary ext ip pp s) =
       (snd (reextract_missing ext s))\<lparr>calls := calls (snd (reextract_missing ext s)) @ new\<rparr> \<and>
     list_all is_summary_step new \<and>
     (\<forall>k<length new. \<forall>e.
         raised ext (calls (snd (reextract_missing ext s)) @ take k new) (new ! k) = Some e \<longrightarrow>
         fst (generate_summary ext ip pp s) = Inl e \<and> Suc k = length new) \<and>
     (\<forall>e. fst (generate_summary ext ip pp s) = Inl e \<longrightarrow>
         new \<noteq> [] \<and>
         raised ext (calls (snd (reextract_missing ext s)) @ butlast new) (last new) = Some e \<and>
         (truthy (invoice_path s) \<and> truthy (po_path s) \<longrightarrow>
            main_compare ext s = (Inl e, snd (generate_summary ext ip pp s))))"
proof -
  let ?s1 = "snd (reextract_missing ext s)"
  have g: "generate_summary ext a b s = request_summary ext ?s1" for a b
    using assms by (simp add: generate_summary_unfold)
  from propagates_request_summary[of ext ?s1] obtain new where
    w: "snd (request_summary ext ?s1) = ?s1\<lparr>calls := calls ?s1 @ new\<rparr>" and
    ks: "list_all is_summary_step new" and
    up: "\<forall>k<length new. \<forall>e. raised ext (calls ?s1 @ take k new) (new ! k) = Some e \<longrightarrow>
             fst (request_summary ext ?s1) = Inl e \<and> Suc k = length new" and
    down: "\<forall>e. fst (request_summary ext ?s1) = Inl e \<longrightarrow>
             new \<noteq> [] \<and> raised ext (calls ?s1 @ butlast new) (last new) = Some e"
    unfolding propagates_at_def by blast
  have handler: "main_compare ext s = (Inl e, snd (generate_summary ext ip pp s))"
    if "fst (generate_summary ext ip pp s) = Inl e" "truthy (invoice_path s) \<and> truthy (po_path s)"
    for e
  proof -
    obtain out s' where r: "request_summary ext ?s1 = (out, s')" by (rule prod.exhaust)
    then have "out = Inl e" using that(1) by (simp add: g)
    then show ?thesis using that(2) r by (simp add: main_compare_def pbind_def g)
  qed
  show ?thesis
    by (rule exI[of _ new]) (use w ks up down handler in \<open>simp add: g\<close>)
qed

theorem C7_witness:
  "\<not> content_missing (snd (reextract_missing llm_down world_both_ready)) \<and>
   truthy (invoice_path world_both_ready) \<and> truthy (po_path world_both_ready) \<and>
   fst (generate_summary llm_down None None world_both_ready) =
     Inl (Py_exception ''TimeoutError'' ''timed out'') \<and>
   main_compare llm_down world_both_ready =
     (Inl (Py_exception ''TimeoutError'' ''timed out''),
      snd (generate_summary llm_down None None world_both_ready))"
proof -
  have ready: "\<not> content_missing (snd (reextract_missing llm_down world_both_ready))"
    by (simp add: summary_defs run_defs fixture_defs more_fixture_defs)
  have paths: "truthy (invoice_path world_both_ready) \<and> truthy (po_path world_both_ready)"
    by (simp add: truthy_def fixture_defs more_fixture_defs)
  have fails: "fst (generate_summary llm_down None None world_both_ready) =
     Inl (Py_exception ''TimeoutError'' ''timed out'')"
    by (simp add: summary_defs run_defs fixture_defs more_fixture_defs)
  from C7_failures_propagate[OF ready, of None None] ready paths fails
  show ?thesis by auto
qed

end
